theory Spec2Isabelle
  imports Main
begin

section \<open>Navigation: \<open>src/libs/Navigation/linkTo.ts\<close>\<close>

text \<open>
  A shallow embedding of \<^verbatim>\<open>getMinimalAction\<close>, \<^verbatim>\<open>isModalNavigator\<close> and
  \<^verbatim>\<open>linkTo\<close>. JavaScript's \<^verbatim>\<open>undefined\<close> is \<open>None\<close>; a thrown error is the
  left injection of a sum; the calls that \<^verbatim>\<open>linkTo\<close> makes on its collaborators are
  recorded, in order, in a list of events.
\<close>

subsection \<open>Constants\<close>

text \<open>
  Modelled from the spec: \<^verbatim>\<open>CONST.NAVIGATION.ACTION_TYPE\<close>, \<^verbatim>\<open>CONST.NAVIGATION.TYPE\<close>
  and \<^verbatim>\<open>NAVIGATORS\<close> are imported by \<^verbatim>\<open>linkTo.ts\<close> from files that are not among the
  sources. The action verbs and intent hints carry the names the spec gives them; the
  three navigator names stand for the spec's central-pane, left-overlay and right-overlay
  navigator kinds.
\<close>

definition NAVIGATE :: string where "NAVIGATE = ''NAVIGATE''"
definition PUSH :: string where "PUSH = ''PUSH''"
definition REPLACE :: string where "REPLACE = ''REPLACE''"
definition FORCED_UP :: string where "FORCED_UP = ''FORCED_UP''"
definition UP :: string where "UP = ''UP''"

definition CENTRAL_PANE_NAVIGATOR :: string where
  "CENTRAL_PANE_NAVIGATOR = ''CentralPaneNavigator''"
definition LEFT_MODAL_NAVIGATOR :: string where
  "LEFT_MODAL_NAVIGATOR = ''LeftModalNavigator''"
definition RIGHT_MODAL_NAVIGATOR :: string where
  "RIGHT_MODAL_NAVIGATOR = ''RightModalNavigator''"

lemmas const_defs =
  NAVIGATE_def PUSH_def REPLACE_def FORCED_UP_def UP_def
  CENTRAL_PANE_NAVIGATOR_def LEFT_MODAL_NAVIGATOR_def RIGHT_MODAL_NAVIGATOR_def

subsection \<open>Data model\<close>

text \<open>
  \<^verbatim>\<open>NavigationState | PartialState<NavigationState>\<close>: a navigator's \<^verbatim>\<open>routes\<close>, its
  \<^verbatim>\<open>index\<close> and its \<^verbatim>\<open>key\<close>; \<^verbatim>\<open>index\<close> and \<^verbatim>\<open>key\<close> are optional in a partial
  state. A route has a \<^verbatim>\<open>name\<close>, an optional \<^verbatim>\<open>key\<close> and an optional nested \<^verbatim>\<open>state\<close>.
  Only the fields that \<^verbatim>\<open>linkTo.ts\<close> reads are kept.
\<close>

datatype route = Route (rname: string) (rkey: "string option") (rstate: "nav_state option")
  and nav_state = NavState (skey: "string option") (sindex: "int option") (sroutes: "route list")

text \<open>
  \<^verbatim>\<open>ActionPayloadParams\<close>: \<^verbatim>\<open>{screen?: string; params?: unknown; path?: string}\<close>. The
  inner \<^verbatim>\<open>params\<close> is read as an \<^verbatim>\<open>ActionPayloadParams\<close> again on the next turn of the
  loop, so the type is recursive. \<open>others\<close> holds whatever else the object carries
  (a report id, for instance); the code never looks at it.
\<close>

datatype 'v action_params =
  ActionParams (screen: "string option") (inner_params: "'v action_params option")
    (inner_path: "string option") (others: 'v)

text \<open>
  The \<^verbatim>\<open>name\<close> property of a payload (\<open>pname\<close> below; \<open>pparams\<close>, \<open>ppath\<close> are
  its \<^verbatim>\<open>params\<close> and \<^verbatim>\<open>path\<close>, \<open>pother\<close> any further content). \<^verbatim>\<open>'name' in payload\<close> asks whether the key is
  there, and the rebuilt payload of \<^verbatim>\<open>getMinimalAction\<close> always has the key, possibly
  with the value \<^verbatim>\<open>undefined\<close>: \<open>NoName\<close> is a payload without the key,
  \<open>Name None\<close> the key with value \<^verbatim>\<open>undefined\<close>.
\<close>

datatype name_field = NoName | Name "string option"

fun name_value :: "name_field \<Rightarrow> string option" where
  "name_value NoName = None"
| "name_value (Name n) = n"

record 'v payload =
  pname :: name_field
  pparams :: "'v action_params option"
  ppath :: "string option"
  pother :: "'v option"

text \<open>\<^verbatim>\<open>NavigationAction\<close>: \<^verbatim>\<open>{type: string; payload?: object; source?: string; target?: string}\<close>.\<close>

record 'v action =
  atype :: string
  payload :: "'v payload option"
  source :: "string option"
  target :: "string option"

datatype error = NoNavigationObject | TypeError

subsection \<open>\<^verbatim>\<open>getMinimalAction\<close> (lines 30--57)\<close>

text \<open>
  \<^verbatim>\<open>routes[i]\<close>: a JavaScript array read is \<^verbatim>\<open>undefined\<close> for every index that is not
  one of \<open>0 .. length - 1\<close>, the index \<open>-1\<close> included.
\<close>

definition js_index :: "'a list \<Rightarrow> int \<Rightarrow> 'a option" where
  "js_index xs i = (if 0 \<le> i \<and> i < int (length xs) then Some (xs ! nat i) else None)"

text \<open>\<^verbatim>\<open>currentState.routes[currentState.index ?? -1]\<close>\<close>

definition activeRoute :: "nav_state \<Rightarrow> route option" where
  "activeRoute currentState =
     js_index (sroutes currentState) (case sindex currentState of None \<Rightarrow> - 1 | Some i \<Rightarrow> i)"

text \<open>The action built at lines 46--54 from the payload \<open>p\<close> of the current action.\<close>

definition unwrap :: "'v payload \<Rightarrow> 'v payload" where
  "unwrap p =
     \<lparr> pname = Name (case pparams p of None \<Rightarrow> None | Some q \<Rightarrow> screen q),
       pparams = (case pparams p of None \<Rightarrow> None | Some q \<Rightarrow> inner_params q),
       ppath = (case pparams p of None \<Rightarrow> None | Some q \<Rightarrow> inner_path q),
       pother = None \<rparr>"

lemma size_activeRoute:
  "activeRoute st = Some r \<Longrightarrow> rstate r = Some st' \<Longrightarrow> size st' < size st"
proof -
  assume a: "activeRoute st = Some r" and s: "rstate r = Some st'"
  from a have mem: "r \<in> set (sroutes st)"
    by (auto simp: activeRoute_def js_index_def split: if_splits)
  from s have "size st' < size r"
    by (cases r) simp
  moreover from mem have "size r \<le> size_list size (sroutes st)"
    by (simp add: size_list_estimation')
  moreover have "size_list size (sroutes st) < size st"
    by (cases st) simp
  ultimately show ?thesis by simp
qed

text \<open>
  The loop of lines 35--55 as a recursion on the pair (\<^verbatim>\<open>currentAction\<close>,
  \<^verbatim>\<open>currentState\<close>); \<^verbatim>\<open>currentTargetKey\<close> is only ever written into the rebuilt
  action. Reading \<^verbatim>\<open>.name\<close> of an \<^verbatim>\<open>undefined\<close> route throws a \<^verbatim>\<open>TypeError\<close>; the
  conjuncts before it short-circuit, so a payload without a \<^verbatim>\<open>name\<close> key never reaches
  the read.
\<close>

function getMinimalAction :: "'v action \<Rightarrow> nav_state \<Rightarrow> error + 'v action" where
  "getMinimalAction currentAction currentState =
     (case payload currentAction of
        None \<Rightarrow> Inr currentAction
      | Some p \<Rightarrow>
          (case pname p of
             NoName \<Rightarrow> Inr currentAction
           | Name n \<Rightarrow>
               (case activeRoute currentState of
                  None \<Rightarrow> Inl TypeError
                | Some r \<Rightarrow>
                    if Some (rname r) \<noteq> n then Inr currentAction
                    else
                      (case rstate r of
                         None \<Rightarrow> Inr currentAction
                       | Some st' \<Rightarrow>
                           getMinimalAction
                             \<lparr> atype = atype currentAction,
                               payload = Some (unwrap p),
                               source = None,
                               target = skey st' \<rparr>
                             st'))))"
  by pat_completeness auto
termination
  by (relation "measure (\<lambda>(a, st). size st)") (auto dest: size_activeRoute)

declare getMinimalAction.simps [simp del]

subsection \<open>\<^verbatim>\<open>isModalNavigator\<close> (lines 59--61)\<close>

definition isModalNavigator :: "string option \<Rightarrow> bool" where
  "isModalNavigator targetNavigator \<longleftrightarrow>
     targetNavigator = Some LEFT_MODAL_NAVIGATOR \<or> targetNavigator = Some RIGHT_MODAL_NAVIGATOR"

subsection \<open>\<^verbatim>\<open>linkTo\<close> (lines 63--132)\<close>

text \<open>
  The navigation handle. \<^verbatim>\<open>linkTo\<close> calls \<^verbatim>\<open>getState\<close> once, on the root, and
  \<^verbatim>\<open>getRootState\<close> once, on the handle it was given, so each handle carries the value
  that call returns; nothing relates the two values (\<^verbatim>\<open>dismissModal\<close> may run between
  the two reads). The chain of parents is finite.
\<close>

datatype nav = Nav (getParent: "nav option") (getState: nav_state) (getRootState: nav_state)

text \<open>
  The collaborators that \<^verbatim>\<open>linkTo.ts\<close> imports and that are not among the sources, as
  parameters: \<^verbatim>\<open>getStateFromPath\<close>, \<^verbatim>\<open>getActionFromState\<close> (with the static
  \<^verbatim>\<open>linkingConfig.config\<close>) and \<^verbatim>\<open>getTopmostReportId\<close>.
\<close>

record 'v env =
  getStateFromPath :: "string \<Rightarrow> nav_state"
  getActionFromState :: "nav_state \<Rightarrow> 'v action option"
  getTopmostReportId :: "nav_state \<Rightarrow> string option"

text \<open>
  The calls \<^verbatim>\<open>linkTo\<close> makes on the handles, on the two resolution steps and on
  \<^verbatim>\<open>dismissModal\<close>. \<^verbatim>\<open>getTopmostReportId\<close> only reads its argument and is not
  recorded.
\<close>

datatype 'v event =
    CallGetParent nav
  | CallGetState nav
  | CallGetStateFromPath string
  | CallGetActionFromState nav_state
  | CallDismissModal string nav
  | CallGetRootState nav
  | CallDispatch nav "'v action"
  | CallReset nav nav_state

fun isDismiss :: "'v event \<Rightarrow> bool" where
  "isDismiss (CallDismissModal _ _) = True"
| "isDismiss _ = False"

fun isDispatch :: "'v event \<Rightarrow> bool" where
  "isDispatch (CallDispatch _ _) = True"
| "isDispatch _ = False"

fun isReset :: "'v event \<Rightarrow> bool" where
  "isReset (CallReset _ _) = True"
| "isReset _ = False"

text \<open>
  Lines 68--75: \<^verbatim>\<open>while ((current = root.getParent())) root = current\<close>. \<open>rootOf\<close> is
  the handle the loop ends on, \<open>traverseUp\<close> the \<^verbatim>\<open>getParent\<close> calls it makes.
\<close>

fun rootOf :: "nav \<Rightarrow> nav" where
  "rootOf (Nav None s r) = Nav None s r"
| "rootOf (Nav (Some current) s r) = rootOf current"

fun traverseUp :: "nav \<Rightarrow> 'v event list" where
  "traverseUp (Nav None s r) = [CallGetParent (Nav None s r)]"
| "traverseUp (Nav (Some current) s r) = CallGetParent (Nav (Some current) s r) # traverseUp current"

text \<open>\<^verbatim>\<open>rootState?.routes?.at(-1)?.name\<close> (line 83)\<close>

definition topRouteName :: "nav_state \<Rightarrow> string option" where
  "topRouteName rootState =
     (case sroutes rootState of [] \<Rightarrow> None | r # rs \<Rightarrow> Some (rname (last (r # rs))))"

text \<open>
  Lines 82--106: the rewriting of \<^verbatim>\<open>action.type\<close>. The result is the action after the
  block together with the \<^verbatim>\<open>dismissModal\<close> call the block may make. Line 84 reads
  \<^verbatim>\<open>action.payload.name\<close> before any rule is tried, which throws on a \<^verbatim>\<open>NAVIGATE\<close>
  action without a payload.
\<close>

definition rewriteActionType ::
  "'v env \<Rightarrow> nav \<Rightarrow> nav_state \<Rightarrow> nav_state \<Rightarrow> string option \<Rightarrow> 'v action option
     \<Rightarrow> error + ('v event list \<times> 'v action option)" where
  "rewriteActionType env navigation rootState state type action =
     (case action of
        None \<Rightarrow> Inr ([], None)
      | Some a \<Rightarrow>
          if atype a \<noteq> NAVIGATE then Inr ([], Some a)
          else
            (case payload a of
               None \<Rightarrow> Inl TypeError
             | Some p \<Rightarrow>
                 let isTargetNavigatorOnTop = (topRouteName rootState = name_value (pname p)) in
                 if type = Some FORCED_UP then Inr ([], Some (a\<lparr>atype := REPLACE\<rparr>))
                 else if name_value (pname p) = Some CENTRAL_PANE_NAVIGATOR
                         \<and> getTopmostReportId env rootState \<noteq> getTopmostReportId env state
                 then Inr ([], Some (a\<lparr>atype := PUSH\<rparr>))
                 else if type = Some UP then Inr ([], Some (a\<lparr>atype := REPLACE\<rparr>))
                 else if isModalNavigator (name_value (pname p)) \<and> \<not> isTargetNavigatorOnTop
                 then Inr (if isModalNavigator (topRouteName rootState)
                           then [CallDismissModal [] navigation] else [],
                           Some (a\<lparr>atype := PUSH\<rparr>))
                 else Inr ([], Some a)))"

text \<open>
  The guard of line 108:
  \<^verbatim>\<open>action && 'payload' in action && action.payload && 'name' in action.payload
    && isModalNavigator(action.payload.name)\<close>.
\<close>

definition targetsModal :: "'v action option \<Rightarrow> bool" where
  "targetsModal action \<longleftrightarrow>
     (case action of
        None \<Rightarrow> False
      | Some a \<Rightarrow>
          (case payload a of
             None \<Rightarrow> False
           | Some p \<Rightarrow> pname p \<noteq> NoName \<and> isModalNavigator (name_value (pname p))))"

text \<open>
  Lines 114--121: the two assignments to \<^verbatim>\<open>minimalAction.type\<close>. \<^verbatim>\<open>!isActiveRoute\<close>
  holds for \<^verbatim>\<open>false\<close> and for an omitted argument.
\<close>

definition forceType :: "string option \<Rightarrow> bool option \<Rightarrow> 'v action \<Rightarrow> 'v action" where
  "forceType type isActiveRoute minimalAction =
     (let m = (if isActiveRoute \<noteq> Some True \<and> type = Some PUSH
               then minimalAction\<lparr>atype := PUSH\<rparr> else minimalAction)
      in if type = Some REPLACE then m\<lparr>atype := REPLACE\<rparr> else m)"

text \<open>
  The calls of lines 68--79, which every run with a handle makes before anything is
  decided: the \<^verbatim>\<open>getParent\<close> calls of the walk to the root, \<^verbatim>\<open>root.getState()\<close>,
  \<^verbatim>\<open>getStateFromPath(path)\<close> and \<^verbatim>\<open>getActionFromState(state, linkingConfig.config)\<close>.
\<close>

definition reads :: "'v env \<Rightarrow> nav \<Rightarrow> string \<Rightarrow> 'v event list" where
  "reads env nav path =
     traverseUp nav
       @ [CallGetState (rootOf nav), CallGetStateFromPath path,
          CallGetActionFromState (getStateFromPath env path)]"

text \<open>
  \<^verbatim>\<open>linkTo\<close>: the calls made, in order, and the error thrown if any. The split on
  \<open>action'\<close> is the conjunct \<^verbatim>\<open>action &&\<close> of line 108 and the test
  \<^verbatim>\<open>action !== undefined\<close> of line 127. The value \<^verbatim>\<open>getMinimalAction\<close> returns is an
  object, so the test \<^verbatim>\<open>if (minimalAction)\<close> of line 110 holds whenever the call
  returns; an error thrown inside the call leaves \<^verbatim>\<open>linkTo\<close> uncaught.
\<close>

definition linkTo ::
  "'v env \<Rightarrow> nav option \<Rightarrow> string \<Rightarrow> string option \<Rightarrow> bool option
     \<Rightarrow> 'v event list \<times> error option" where
  "linkTo env navigation path type isActiveRoute =
     (case navigation of
        None \<Rightarrow> ([], Some NoNavigationObject)
      | Some nav \<Rightarrow>
          let root = rootOf nav;
              rootState = getState root;
              state = getStateFromPath env path;
              action = getActionFromState env state
          in
          (case rewriteActionType env nav rootState state type action of
             Inl e \<Rightarrow> (reads env nav path, Some e)
           | Inr (dismissals, action') \<Rightarrow>
               (case action' of
                  None \<Rightarrow> (reads env nav path @ dismissals @ [CallReset root state], None)
                | Some a \<Rightarrow>
                    if targetsModal action' then
                      (case getMinimalAction a (getRootState nav) of
                         Inl e \<Rightarrow>
                           (reads env nav path @ dismissals @ [CallGetRootState nav], Some e)
                       | Inr minimalAction \<Rightarrow>
                           (reads env nav path @ dismissals
                              @ [CallGetRootState nav,
                                 CallDispatch root (forceType type isActiveRoute minimalAction)],
                            None))
                    else (reads env nav path @ dismissals @ [CallDispatch root a], None))))"

subsection \<open>The vocabulary of the properties\<close>

text \<open>
  The node reached after \<open>j\<close> descents along the active branch: each descent goes from
  a node to the nested state of its active route.
\<close>

fun branch_node :: "nat \<Rightarrow> nav_state \<Rightarrow> nav_state option" where
  "branch_node 0 st = Some st"
| "branch_node (Suc j) st =
     (case branch_node j st of
        None \<Rightarrow> None
      | Some n \<Rightarrow> (case activeRoute n of None \<Rightarrow> None | Some r \<Rightarrow> rstate r))"

text \<open>
  Level \<open>j\<close> of the name-chain of a payload \<open>p\<close> is the name of \<open>(unwrap ^^ j) p\<close>:
  \<^verbatim>\<open>payload.name\<close> at level \<open>0\<close>, then \<^verbatim>\<open>params.screen\<close> at each deeper level. The
  level matches the tree when the node reached after \<open>j\<close> descents has an active route
  of that name, and that route has a nested state.
\<close>

definition level_matches :: "nat \<Rightarrow> 'v payload \<Rightarrow> nav_state \<Rightarrow> bool" where
  "level_matches j p st \<longleftrightarrow>
     (case branch_node j st of
        None \<Rightarrow> False
      | Some n \<Rightarrow>
          (case activeRoute n of
             None \<Rightarrow> False
           | Some r \<Rightarrow>
               name_value (pname ((unwrap ^^ j) p)) = Some (rname r) \<and> rstate r \<noteq> None))"

text \<open>The actions dispatched in a list of calls, in order.\<close>

fun dispatched :: "'v event list \<Rightarrow> 'v action list" where
  "dispatched [] = []"
| "dispatched (CallDispatch r d # es) = d # dispatched es"
| "dispatched (e # es) = dispatched es"

subsection \<open>Example inputs\<close>

text \<open>
  A root stack whose top and active route is the right modal navigator, showing the
  settings flow two navigators deep, and a \<^verbatim>\<open>NAVIGATE\<close> action into that flow.
\<close>

definition ex_settings :: nav_state where
  "ex_settings = NavState (Some ''settings-key'') (Some 0) [Route ''Settings_Root'' (Some ''sr'') None]"

definition ex_rhp :: nav_state where
  "ex_rhp = NavState (Some ''rhp-key'') (Some 1)
     [Route ''Search'' (Some ''se'') None, Route ''Settings'' (Some ''st'') (Some ex_settings)]"

definition ex_root :: nav_state where
  "ex_root = NavState (Some ''root-key'') (Some 1)
     [Route ''BottomTabNavigator'' (Some ''bt'') None,
      Route ''RightModalNavigator'' (Some ''rm'') (Some ex_rhp)]"

definition ex_payload :: "unit payload" where
  "ex_payload =
     \<lparr> pname = Name (Some ''RightModalNavigator''),
       pparams = Some (ActionParams (Some ''Settings'')
                   (Some (ActionParams (Some ''Settings_Profile'') None
                            (Some ''settings/profile'') ()))
                   None ()),
       ppath = None, pother = None \<rparr>"

definition ex_action :: "unit action" where
  "ex_action = \<lparr> atype = NAVIGATE, payload = Some ex_payload, source = None, target = None \<rparr>"

text \<open>The same root with the bottom tabs active, and with the left modal navigator on top.\<close>

definition ex_root_tabs :: nav_state where
  "ex_root_tabs = NavState (Some ''root-key'') (Some 0)
     [Route ''BottomTabNavigator'' (Some ''bt'') None]"

definition ex_root_left :: nav_state where
  "ex_root_left = NavState (Some ''root-key'') (Some 1)
     [Route ''BottomTabNavigator'' (Some ''bt'') None,
      Route ''LeftModalNavigator'' (Some ''lm'') None]"

text \<open>
  A root whose modal route carries a partial nested state (no \<^verbatim>\<open>index\<close>, no \<^verbatim>\<open>key\<close>),
  and a root with no routes.
\<close>

definition ex_root_partial :: nav_state where
  "ex_root_partial = NavState (Some ''root-key'') (Some 1)
     [Route ''BottomTabNavigator'' (Some ''bt'') None,
      Route ''RightModalNavigator'' (Some ''rm'')
        (Some (NavState None None [Route ''Settings'' None None]))]"

definition ex_root_empty :: nav_state where
  "ex_root_empty = NavState (Some ''root-key'') (Some 0) []"

text \<open>A central-pane action, and a payload without a \<^verbatim>\<open>name\<close> key.\<close>

definition ex_report_action :: "unit action" where
  "ex_report_action =
     \<lparr> atype = NAVIGATE,
       payload = Some \<lparr> pname = Name (Some CENTRAL_PANE_NAVIGATOR),
                        pparams = Some (ActionParams (Some ''Report'') None (Some ''r/99'') ()),
                        ppath = None, pother = None \<rparr>,
       source = None, target = None \<rparr>"

definition ex_reset_action :: "unit action" where
  "ex_reset_action =
     \<lparr> atype = ''RESET'',
       payload = Some \<lparr> pname = NoName, pparams = None, ppath = None, pother = Some () \<rparr>,
       source = None, target = None \<rparr>"

text \<open>
  Handles: a screen's handle whose parent is the root handle. Collaborators: the parsed
  state is \<open>ex_rhp\<close> whatever the path, and the topmost report id is \<open>42\<close> in the
  current root and \<open>99\<close> in the parsed state.
\<close>

definition ex_nav :: "nav_state \<Rightarrow> nav" where
  "ex_nav rootState = Nav (Some (Nav None rootState rootState)) ex_rhp rootState"

definition ex_env :: "unit action option \<Rightarrow> unit env" where
  "ex_env resolved =
     \<lparr> getStateFromPath = (\<lambda>path. ex_rhp),
       getActionFromState = (\<lambda>state. resolved),
       getTopmostReportId = (\<lambda>state. if state = ex_rhp then Some ''99'' else Some ''42'') \<rparr>"

lemmas ex_defs =
  ex_settings_def ex_rhp_def ex_root_def ex_payload_def ex_action_def ex_root_tabs_def
  ex_root_left_def ex_root_partial_def ex_root_empty_def ex_report_action_def
  ex_reset_action_def ex_nav_def ex_env_def

section \<open>Properties\<close>

subsection \<open>Auxiliary facts\<close>

lemma branch_node_Suc_top:
  "branch_node (Suc j) st =
     (case activeRoute st of
        None \<Rightarrow> None
      | Some r \<Rightarrow> (case rstate r of None \<Rightarrow> None | Some st' \<Rightarrow> branch_node j st'))"
  by (induction j) (auto split: option.splits)

lemma getMinimalAction_returns_input:
  assumes "payload a = None \<or> (\<exists>p. payload a = Some p \<and> pname p = NoName)
     \<or> (\<exists>p r. payload a = Some p \<and> activeRoute st = Some r
            \<and> (name_value (pname p) \<noteq> Some (rname r) \<or> rstate r = None))"
  shows "getMinimalAction a st = Inr a"
  using assms
  by (subst getMinimalAction.simps) (auto split: option.splits name_field.splits)

lemma getMinimalAction_step:
  assumes "payload a = Some p" and "activeRoute st = Some r"
    and "name_value (pname p) = Some (rname r)" and "rstate r = Some st'"
  shows "getMinimalAction a st =
     getMinimalAction
       \<lparr>atype = atype a, payload = Some (unwrap p), source = None, target = skey st'\<rparr> st'"
  using assms
  by (subst getMinimalAction.simps) (auto split: option.splits name_field.splits)

lemma getMinimalAction_faults:
  assumes "payload a = Some p" and "pname p = Name n" and "activeRoute st = None"
  shows "getMinimalAction a st = Inl TypeError"
  using assms by (subst getMinimalAction.simps) simp

lemma level_matches_0:
  "level_matches 0 p st \<longleftrightarrow>
     (\<exists>r st'. activeRoute st = Some r \<and> name_value (pname p) = Some (rname r)
        \<and> rstate r = Some st')"
  by (auto simp: level_matches_def split: option.splits)

lemma level_matches_Suc:
  assumes "activeRoute st = Some r" and "rstate r = Some st'"
  shows "level_matches (Suc j) p st \<longleftrightarrow> level_matches j (unwrap p) st'"
proof -
  have "(unwrap ^^ Suc j) p = (unwrap ^^ j) (unwrap p)"
    by (simp add: funpow_swap1)
  with assms show ?thesis
    unfolding level_matches_def branch_node_Suc_top
    by (simp del: funpow.simps split: option.splits)
qed

text \<open>
  While the levels match, the loop peels them off one by one: after \<open>Suc k\<close> matching
  levels the function is back at its entry, with the rebuilt action and the node reached.
\<close>

lemma getMinimalAction_peel:
  assumes "payload a = Some p" and "\<forall>j<Suc k. level_matches j p st"
  shows "\<exists>nk. branch_node (Suc k) st = Some nk \<and>
           getMinimalAction a st =
             getMinimalAction \<lparr>atype = atype a, payload = Some ((unwrap ^^ Suc k) p),
                               source = None, target = skey nk\<rparr> nk"
  using assms
proof (induction k arbitrary: a p st)
  case 0
  then have "level_matches 0 p st" by simp
  then obtain r st' where r: "activeRoute st = Some r"
      "name_value (pname p) = Some (rname r)" "rstate r = Some st'"
    by (auto simp: level_matches_0)
  with 0 show ?case
    by (simp add: getMinimalAction_step [OF "0.prems"(1) r])
next
  case (Suc k)
  then have "level_matches 0 p st" by simp
  then obtain r st' where r: "activeRoute st = Some r"
      "name_value (pname p) = Some (rname r)" "rstate r = Some st'"
    by (auto simp: level_matches_0)
  let ?a1 = "\<lparr>atype = atype a, payload = Some (unwrap p), source = None, target = skey st'\<rparr>"
  have step: "getMinimalAction a st = getMinimalAction ?a1 st'"
    by (rule getMinimalAction_step [OF Suc.prems(1) r])
  have "\<forall>j<Suc k. level_matches j (unwrap p) st'"
  proof (intro allI impI)
    fix j assume "j < Suc k"
    then have "level_matches (Suc j) p st" using Suc.prems(2) by simp
    then show "level_matches j (unwrap p) st'"
      by (simp add: level_matches_Suc [OF r(1) r(3)])
  qed
  from Suc.IH [of ?a1 "unwrap p" st', OF _ this]
  obtain nk where nk: "branch_node (Suc k) st' = Some nk"
    "getMinimalAction ?a1 st' =
       getMinimalAction \<lparr>atype = atype ?a1, payload = Some ((unwrap ^^ Suc k) (unwrap p)),
                         source = None, target = skey nk\<rparr> nk"
    by auto
  have "branch_node (Suc (Suc k)) st = Some nk"
    using nk(1) r by (simp only: branch_node_Suc_top [of "Suc k"]) simp
  moreover have "(unwrap ^^ Suc k) (unwrap p) = (unwrap ^^ Suc (Suc k)) p"
    by (simp add: funpow_swap1)
  ultimately show ?case using step nk(2) by simp
qed

lemma getMinimalAction_atype:
  "getMinimalAction a st = Inr m \<Longrightarrow> atype m = atype a"
proof (induction a st rule: getMinimalAction.induct)
  case (1 a st)
  from "1.prems" show ?case
    by (subst (asm) getMinimalAction.simps)
       (auto split: option.splits name_field.splits if_splits dest: "1.IH")
qed

lemma traverseUp_reads_only:
  "filter isDismiss (traverseUp nav) = []"
  "filter isDispatch (traverseUp nav) = []"
  "filter isReset (traverseUp nav) = []"
  "dispatched (traverseUp nav) = []"
  by (induction nav rule: rootOf.induct) simp_all

lemma dispatched_append: "dispatched (xs @ ys) = dispatched xs @ dispatched ys"
  by (induction xs rule: dispatched.induct) simp_all

lemma reads_only:
  "filter isDismiss (reads env nav path) = []"
  "filter isDispatch (reads env nav path) = []"
  "filter isReset (reads env nav path) = []"
  "dispatched (reads env nav path) = []"
  by (simp_all add: reads_def traverseUp_reads_only dispatched_append)

lemma linkTo_Some:
  "linkTo env (Some nav) path type isActiveRoute =
     (case rewriteActionType env nav (getState (rootOf nav)) (getStateFromPath env path) type
             (getActionFromState env (getStateFromPath env path)) of
        Inl e \<Rightarrow> (reads env nav path, Some e)
      | Inr (dismissals, action') \<Rightarrow>
          (case action' of
             None \<Rightarrow>
               (reads env nav path @ dismissals
                  @ [CallReset (rootOf nav) (getStateFromPath env path)], None)
           | Some a \<Rightarrow>
               if targetsModal action' then
                 (case getMinimalAction a (getRootState nav) of
                    Inl e \<Rightarrow> (reads env nav path @ dismissals @ [CallGetRootState nav], Some e)
                  | Inr minimalAction \<Rightarrow>
                      (reads env nav path @ dismissals
                         @ [CallGetRootState nav,
                            CallDispatch (rootOf nav) (forceType type isActiveRoute minimalAction)],
                       None))
               else (reads env nav path @ dismissals @ [CallDispatch (rootOf nav) a], None)))"
  by (simp add: linkTo_def Let_def)

lemma modal_not_central:
  "isModalNavigator n \<Longrightarrow> n \<noteq> Some CENTRAL_PANE_NAVIGATOR"
  by (auto simp: isModalNavigator_def const_defs)

lemma forceType_other_hint:
  "type \<noteq> Some PUSH \<Longrightarrow> type \<noteq> Some REPLACE \<Longrightarrow> forceType type isActiveRoute m = m"
  by (simp add: forceType_def)

lemma getMinimalAction_error:
  "getMinimalAction a st = Inl e \<Longrightarrow> e = TypeError"
proof (induction a st rule: getMinimalAction.induct)
  case (1 a st)
  from "1.prems" show ?case
    by (subst (asm) getMinimalAction.simps)
       (auto split: option.splits name_field.splits if_splits dest: "1.IH")
qed

text \<open>
  For an action that passes the guard of line 108 there are two outcomes only: the
  minimal action is dispatched, or the \<^verbatim>\<open>TypeError\<close> of the minimization leaves
  \<^verbatim>\<open>linkTo\<close>; lines 127--131 are not reached.
\<close>

lemma linkTo_modal_target_outcomes:
  assumes "rewriteActionType env nav (getState (rootOf nav)) (getStateFromPath env path) type
             (getActionFromState env (getStateFromPath env path)) = Inr (dismissals, Some a)"
    and "targetsModal (Some a)"
  shows "(\<exists>m. getMinimalAction a (getRootState nav) = Inr m
            \<and> linkTo env (Some nav) path type isActiveRoute
                = (reads env nav path @ dismissals
                     @ [CallGetRootState nav,
                        CallDispatch (rootOf nav) (forceType type isActiveRoute m)], None))
       \<or> (getMinimalAction a (getRootState nav) = Inl TypeError
            \<and> linkTo env (Some nav) path type isActiveRoute
                = (reads env nav path @ dismissals @ [CallGetRootState nav], Some TypeError))"
proof (cases "getMinimalAction a (getRootState nav)")
  case (Inl e)
  then have "e = TypeError" by (rule getMinimalAction_error)
  with Inl assms show ?thesis by (simp add: linkTo_Some)
next
  case (Inr m)
  with assms show ?thesis by (simp add: linkTo_Some)
qed

subsection \<open>The minimal action\<close>

text \<open>
  The descent where it ends on a defined route. Let the first \<open>k\<close> levels (\<open>k > 0\<close>)
  of the action's name-chain equal the names of the active routes met on the way down the
  tree, each of these routes having a nested state, and let the node \<open>nk\<close> reached after
  \<open>k\<close> descents have an active route \<open>rk\<close> whose name differs from the next name of
  the chain or which has no nested state. Then \<^verbatim>\<open>getMinimalAction\<close> returns the
  action whose \<^verbatim>\<open>target\<close> is the key of \<open>nk\<close>, whose type is the type of the input
  action and whose payload is the input payload unwrapped \<open>k\<close> times.
\<close>

lemma getMinimalAction_descends_to_defined_route:
  assumes "payload a = Some p" and "0 < k"
    and "\<forall>j<k. level_matches j p st"
    and "branch_node k st = Some nk" and "activeRoute nk = Some rk"
    and "name_value (pname ((unwrap ^^ k) p)) \<noteq> Some (rname rk) \<or> rstate rk = None"
  shows "getMinimalAction a st =
     Inr \<lparr>atype = atype a, payload = Some ((unwrap ^^ k) p), source = None, target = skey nk\<rparr>"
proof -
  from \<open>0 < k\<close> obtain k' where k: "k = Suc k'" by (cases k) auto
  from getMinimalAction_peel [OF assms(1), of k' st] assms(3,4) k
  have "getMinimalAction a st =
     getMinimalAction \<lparr>atype = atype a, payload = Some ((unwrap ^^ k) p),
                       source = None, target = skey nk\<rparr> nk"
    by auto
  also have "\<dots> =
     Inr \<lparr>atype = atype a, payload = Some ((unwrap ^^ k) p), source = None, target = skey nk\<rparr>"
    by (rule getMinimalAction_returns_input) (use assms(5,6) in auto)
  finally show ?thesis .
qed

text \<open>
  An instance with two descents: the action into the settings flow against \<open>ex_root\<close>
  is cut down to an action on the settings navigator.
\<close>

lemma getMinimalAction_descends_example:
  "getMinimalAction ex_action ex_root =
     Inr \<lparr>atype = NAVIGATE,
          payload = Some \<lparr>pname = Name (Some ''Settings_Profile''), pparams = None,
                          ppath = Some ''settings/profile'', pother = None\<rparr>,
          source = None, target = Some ''settings-key''\<rparr>"
  using getMinimalAction_descends_to_defined_route [of ex_action ex_payload 2 ex_root ex_settings
      "Route ''Settings_Root'' (Some ''sr'') None"]
  by (simp add: ex_defs level_matches_def activeRoute_def js_index_def unwrap_def
        numeral_2_eq_2 All_less_Suc)

text \<open>
  C1. The descent does not return on every tree whose first \<open>k\<close> levels match. In
  \<open>ex_root_partial\<close> the first level of the name-chain of \<open>ex_action\<close> matches the
  active branch and has a nested state, and the second does not match, so \<open>k = 1\<close>;
  the node reached after the one descent is the nested partial state, which has no
  \<^verbatim>\<open>index\<close>. There the lookup \<^verbatim>\<open>routes[index ?? -1].name\<close> throws a \<^verbatim>\<open>TypeError\<close>,
  and no action targeted at that node is returned.
\<close>

theorem getMinimalAction_descent_faults:
  "level_matches 0 ex_payload ex_root_partial
   \<and> branch_node 1 ex_root_partial = Some (NavState None None [Route ''Settings'' None None])
   \<and> \<not> level_matches 1 ex_payload ex_root_partial
   \<and> getMinimalAction ex_action ex_root_partial = Inl TypeError"
  by (simp add: getMinimalAction.simps level_matches_def ex_defs activeRoute_def js_index_def
        unwrap_def)



subsection \<open>The rewriting of the action type\<close>

text \<open>
  C3. When the resolved action is a \<^verbatim>\<open>NAVIGATE\<close> action (with its payload) and the
  hint is \<^verbatim>\<open>FORCED_UP\<close>, the type is rewritten to \<^verbatim>\<open>REPLACE\<close>, whatever the
  payload names, whatever the topmost report ids are and whatever is on top of the root
  stack; no modal is dismissed, and if \<^verbatim>\<open>linkTo\<close> returns, the one action it has
  dispatched has type \<^verbatim>\<open>REPLACE\<close>.
\<close>

theorem linkTo_forced_up_replaces:
  assumes "getActionFromState env (getStateFromPath env path) = Some a"
    and "atype a = NAVIGATE" and "payload a = Some p"
  shows "rewriteActionType env nav (getState (rootOf nav)) (getStateFromPath env path)
           (Some FORCED_UP) (getActionFromState env (getStateFromPath env path))
           = Inr ([], Some (a\<lparr>atype := REPLACE\<rparr>))
       \<and> map atype (dispatched (fst (linkTo env (Some nav) path (Some FORCED_UP) isActiveRoute)))
           = (if snd (linkTo env (Some nav) path (Some FORCED_UP) isActiveRoute) = None
              then [REPLACE] else [])
       \<and> filter isDismiss (fst (linkTo env (Some nav) path (Some FORCED_UP) isActiveRoute)) = []"
proof -
  let ?rw = "rewriteActionType env nav (getState (rootOf nav)) (getStateFromPath env path)
           (Some FORCED_UP) (getActionFromState env (getStateFromPath env path))"
  have rw: "?rw = Inr ([], Some (a\<lparr>atype := REPLACE\<rparr>))"
    using assms by (simp add: rewriteActionType_def)
  have hint: "Some FORCED_UP \<noteq> Some PUSH" "Some FORCED_UP \<noteq> Some REPLACE"
    by (simp_all add: const_defs)
  have "map atype (dispatched (fst (linkTo env (Some nav) path (Some FORCED_UP) isActiveRoute)))
           = (if snd (linkTo env (Some nav) path (Some FORCED_UP) isActiveRoute) = None
              then [REPLACE] else [])"
    by (auto simp: linkTo_Some rw forceType_other_hint [OF hint] dispatched_append reads_only
             split: sum.splits dest: getMinimalAction_atype)
  moreover
  have "filter isDismiss (fst (linkTo env (Some nav) path (Some FORCED_UP) isActiveRoute)) = []"
    by (auto simp: linkTo_Some rw reads_only split: sum.splits)
  ultimately show ?thesis using rw by simp
qed

text \<open>
  Two instances in which a later rule would apply: a central-pane action with different
  report ids, and a modal action while the other modal navigator is on top.
\<close>

theorem linkTo_forced_up_replaces_witness:
  "rewriteActionType (ex_env (Some ex_report_action)) (ex_nav ex_root) ex_root ex_rhp
     (Some FORCED_UP) (Some ex_report_action)
     = Inr ([], Some (ex_report_action\<lparr>atype := REPLACE\<rparr>))
   \<and> rewriteActionType (ex_env (Some ex_action)) (ex_nav ex_root_left) ex_root_left ex_rhp
     (Some FORCED_UP) (Some ex_action)
     = Inr ([], Some (ex_action\<lparr>atype := REPLACE\<rparr>))"
  using linkTo_forced_up_replaces
      [of "ex_env (Some ex_report_action)" "''r/99''" ex_report_action
          "the (payload ex_report_action)" "ex_nav ex_root" None]
    linkTo_forced_up_replaces
      [of "ex_env (Some ex_action)" "''settings/profile''" ex_action ex_payload
          "ex_nav ex_root_left" None]
  by (simp add: ex_action_def ex_report_action_def ex_env_def ex_nav_def)

text \<open>
  C4. When the resolved action is a \<^verbatim>\<open>NAVIGATE\<close> action, the hint is not
  \<^verbatim>\<open>FORCED_UP\<close>, the payload names the central-pane navigator and the topmost report
  id of the current root state differs from that of the state parsed from the path, the
  type is rewritten to \<^verbatim>\<open>PUSH\<close>; \<^verbatim>\<open>linkTo\<close> then dispatches that action on the root.
\<close>

theorem linkTo_central_pane_pushes:
  assumes "getActionFromState env (getStateFromPath env path) = Some a"
    and "atype a = NAVIGATE" and "type \<noteq> Some FORCED_UP" and "payload a = Some p"
    and "name_value (pname p) = Some CENTRAL_PANE_NAVIGATOR"
    and "getTopmostReportId env (getState (rootOf nav))
           \<noteq> getTopmostReportId env (getStateFromPath env path)"
  shows "rewriteActionType env nav (getState (rootOf nav)) (getStateFromPath env path) type
           (getActionFromState env (getStateFromPath env path))
           = Inr ([], Some (a\<lparr>atype := PUSH\<rparr>))
       \<and> linkTo env (Some nav) path type isActiveRoute
           = (reads env nav path @ [CallDispatch (rootOf nav) (a\<lparr>atype := PUSH\<rparr>)], None)"
proof -
  have rw: "rewriteActionType env nav (getState (rootOf nav)) (getStateFromPath env path) type
           (getActionFromState env (getStateFromPath env path))
           = Inr ([], Some (a\<lparr>atype := PUSH\<rparr>))"
    using assms by (simp add: rewriteActionType_def)
  have "\<not> targetsModal (Some (a\<lparr>atype := PUSH\<rparr>))"
    using assms(4,5) modal_not_central [of "name_value (pname p)"]
    by (auto simp: targetsModal_def)
  with rw show ?thesis
    by (simp add: linkTo_Some)
qed

text \<open>
  An instance: report \<open>42\<close> is open, the path leads to report \<open>99\<close>, no hint.
\<close>

theorem linkTo_central_pane_pushes_witness:
  "getTopmostReportId (ex_env (Some ex_report_action)) ex_root = Some ''42''
   \<and> getTopmostReportId (ex_env (Some ex_report_action)) ex_rhp = Some ''99''
   \<and> linkTo (ex_env (Some ex_report_action)) (Some (ex_nav ex_root)) ''r/99'' None None
       = (reads (ex_env (Some ex_report_action)) (ex_nav ex_root) ''r/99''
            @ [CallDispatch (Nav None ex_root ex_root) (ex_report_action\<lparr>atype := PUSH\<rparr>)],
          None)"
  using linkTo_central_pane_pushes
      [of "ex_env (Some ex_report_action)" "''r/99''" ex_report_action None
          "the (payload ex_report_action)" "ex_nav ex_root" None]
  by (simp add: ex_defs)

text \<open>
  C5. Let the resolved action be a \<^verbatim>\<open>NAVIGATE\<close> action that names a modal navigator,
  with none of the rules for \<^verbatim>\<open>FORCED_UP\<close>, the central pane and \<^verbatim>\<open>UP\<close>
  applying. If the topmost route of the root is not that navigator, the type is rewritten
  to \<^verbatim>\<open>PUSH\<close>, and \<^verbatim>\<open>dismissModal\<close> is called once if the topmost route is itself a
  modal navigator and not at all otherwise. If the topmost route is that navigator, the
  type stays \<^verbatim>\<open>NAVIGATE\<close> and \<^verbatim>\<open>dismissModal\<close> is not called.
\<close>

theorem linkTo_modal_pushes:
  assumes "getActionFromState env (getStateFromPath env path) = Some a"
    and "atype a = NAVIGATE" and "type \<noteq> Some FORCED_UP" and "type \<noteq> Some UP"
    and "payload a = Some p"
    and "\<not> (name_value (pname p) = Some CENTRAL_PANE_NAVIGATOR
             \<and> getTopmostReportId env (getState (rootOf nav))
                 \<noteq> getTopmostReportId env (getStateFromPath env path))"
    and "isModalNavigator (name_value (pname p))"
  shows "rewriteActionType env nav (getState (rootOf nav)) (getStateFromPath env path) type
           (getActionFromState env (getStateFromPath env path))
           = (if topRouteName (getState (rootOf nav)) = name_value (pname p)
              then Inr ([], Some a)
              else Inr (if isModalNavigator (topRouteName (getState (rootOf nav)))
                        then [CallDismissModal [] nav] else [],
                        Some (a\<lparr>atype := PUSH\<rparr>)))
       \<and> length (filter isDismiss (fst (linkTo env (Some nav) path type isActiveRoute)))
           = (if topRouteName (getState (rootOf nav)) \<noteq> name_value (pname p)
                 \<and> isModalNavigator (topRouteName (getState (rootOf nav))) then 1 else 0)"
proof -
  let ?rw = "rewriteActionType env nav (getState (rootOf nav)) (getStateFromPath env path) type
           (getActionFromState env (getStateFromPath env path))"
  have rw: "?rw = (if topRouteName (getState (rootOf nav)) = name_value (pname p)
              then Inr ([], Some a)
              else Inr (if isModalNavigator (topRouteName (getState (rootOf nav)))
                        then [CallDismissModal [] nav] else [],
                        Some (a\<lparr>atype := PUSH\<rparr>)))"
    using assms by (auto simp: rewriteActionType_def)
  have "length (filter isDismiss (fst (linkTo env (Some nav) path type isActiveRoute)))
           = (if topRouteName (getState (rootOf nav)) \<noteq> name_value (pname p)
                 \<and> isModalNavigator (topRouteName (getState (rootOf nav))) then 1 else 0)"
    by (auto simp: linkTo_Some rw reads_only split: sum.splits)
  with rw show ?thesis by simp
qed

text \<open>
  Three instances for the right modal navigator: the left one on top, the bottom tabs on
  top, and the right one already on top.
\<close>

theorem linkTo_modal_pushes_witness:
  "rewriteActionType (ex_env (Some ex_action)) (ex_nav ex_root_left) ex_root_left ex_rhp None
     (Some ex_action)
     = Inr ([CallDismissModal [] (ex_nav ex_root_left)], Some (ex_action\<lparr>atype := PUSH\<rparr>))
   \<and> rewriteActionType (ex_env (Some ex_action)) (ex_nav ex_root_tabs) ex_root_tabs ex_rhp None
     (Some ex_action)
     = Inr ([], Some (ex_action\<lparr>atype := PUSH\<rparr>))
   \<and> rewriteActionType (ex_env (Some ex_action)) (ex_nav ex_root) ex_root ex_rhp None
     (Some ex_action)
     = Inr ([], Some ex_action)"
  using linkTo_modal_pushes
      [of "ex_env (Some ex_action)" "''settings/profile''" ex_action None ex_payload
          "ex_nav ex_root_left" None]
    linkTo_modal_pushes
      [of "ex_env (Some ex_action)" "''settings/profile''" ex_action None ex_payload
          "ex_nav ex_root_tabs" None]
    linkTo_modal_pushes
      [of "ex_env (Some ex_action)" "''settings/profile''" ex_action None ex_payload
          "ex_nav ex_root" None]
  by (simp add: ex_defs topRouteName_def isModalNavigator_def const_defs)

subsection \<open>Dispatch\<close>

text \<open>
  C6. When the action after the rewriting names a modal navigator and the minimal action
  has been computed, \<^verbatim>\<open>linkTo\<close> dispatches it on the root with its type forced: to
  \<^verbatim>\<open>PUSH\<close> when \<^verbatim>\<open>isActiveRoute\<close> is false (or omitted) and the hint is
  \<^verbatim>\<open>PUSH\<close>, to \<^verbatim>\<open>REPLACE\<close> when the hint is \<^verbatim>\<open>REPLACE\<close>, and as computed
  otherwise.
\<close>

theorem linkTo_forces_minimal_type:
  assumes "rewriteActionType env nav (getState (rootOf nav)) (getStateFromPath env path) type
             (getActionFromState env (getStateFromPath env path)) = Inr (dismissals, Some a)"
    and "targetsModal (Some a)"
    and "getMinimalAction a (getRootState nav) = Inr minimalAction"
  shows "\<exists>d. linkTo env (Some nav) path type isActiveRoute
               = (reads env nav path @ dismissals
                    @ [CallGetRootState nav, CallDispatch (rootOf nav) d], None)
           \<and> (isActiveRoute \<noteq> Some True \<and> type = Some PUSH
                \<longrightarrow> d = minimalAction\<lparr>atype := PUSH\<rparr>)
           \<and> (type = Some REPLACE \<longrightarrow> d = minimalAction\<lparr>atype := REPLACE\<rparr>)
           \<and> (type \<noteq> Some REPLACE \<and> (type = Some PUSH \<longrightarrow> isActiveRoute = Some True)
                \<longrightarrow> d = minimalAction)"
proof -
  have "PUSH \<noteq> REPLACE" by (simp add: const_defs)
  then show ?thesis
    using assms by (auto simp: linkTo_Some forceType_def)
qed

text \<open>
  An instance: the modal navigator is already on top, so the minimal action alone is a
  \<^verbatim>\<open>NAVIGATE\<close>; it is dispatched as a \<^verbatim>\<open>PUSH\<close> for the hint \<^verbatim>\<open>PUSH\<close> with
  \<^verbatim>\<open>isActiveRoute\<close> false, and as a \<^verbatim>\<open>REPLACE\<close> for the hint \<^verbatim>\<open>REPLACE\<close>.
\<close>

theorem linkTo_forces_minimal_type_witness:
  "getMinimalAction ex_action ex_root =
     Inr \<lparr>atype = NAVIGATE,
          payload = Some \<lparr>pname = Name (Some ''Settings_Profile''), pparams = None,
                          ppath = Some ''settings/profile'', pother = None\<rparr>,
          source = None, target = Some ''settings-key''\<rparr>
   \<and> linkTo (ex_env (Some ex_action)) (Some (ex_nav ex_root)) ''settings/profile''
       (Some PUSH) (Some False)
     = (reads (ex_env (Some ex_action)) (ex_nav ex_root) ''settings/profile''
          @ [CallGetRootState (ex_nav ex_root),
             CallDispatch (Nav None ex_root ex_root)
               \<lparr>atype = PUSH,
                payload = Some \<lparr>pname = Name (Some ''Settings_Profile''), pparams = None,
                                ppath = Some ''settings/profile'', pother = None\<rparr>,
                source = None, target = Some ''settings-key''\<rparr>],
        None)
   \<and> linkTo (ex_env (Some ex_action)) (Some (ex_nav ex_root)) ''settings/profile''
       (Some REPLACE) (Some True)
     = (reads (ex_env (Some ex_action)) (ex_nav ex_root) ''settings/profile''
          @ [CallGetRootState (ex_nav ex_root),
             CallDispatch (Nav None ex_root ex_root)
               \<lparr>atype = REPLACE,
                payload = Some \<lparr>pname = Name (Some ''Settings_Profile''), pparams = None,
                                ppath = Some ''settings/profile'', pother = None\<rparr>,
                source = None, target = Some ''settings-key''\<rparr>],
        None)"
proof -
  let ?m = "\<lparr>atype = NAVIGATE,
          payload = Some \<lparr>pname = Name (Some ''Settings_Profile''), pparams = None,
                          ppath = Some ''settings/profile'', pother = None :: unit option\<rparr>,
          source = None, target = Some ''settings-key''\<rparr>"
  have rw: "rewriteActionType (ex_env (Some ex_action)) (ex_nav ex_root)
      (getState (rootOf (ex_nav ex_root)))
      (getStateFromPath (ex_env (Some ex_action)) ''settings/profile'') type
      (getActionFromState (ex_env (Some ex_action))
         (getStateFromPath (ex_env (Some ex_action)) ''settings/profile''))
      = Inr ([], Some ex_action)"
    if "type = Some PUSH \<or> type = Some REPLACE" for type
    using that
    by (auto simp: rewriteActionType_def ex_defs topRouteName_def isModalNavigator_def const_defs)
  have tm: "targetsModal (Some ex_action)"
    by (simp add: targetsModal_def ex_defs isModalNavigator_def const_defs)
  have gm: "getMinimalAction ex_action (getRootState (ex_nav ex_root)) = Inr ?m"
    by (simp add: getMinimalAction.simps ex_defs activeRoute_def js_index_def unwrap_def)
  have root: "rootOf (ex_nav ex_root) = Nav None ex_root ex_root"
    by (simp add: ex_nav_def)
  have pr: "PUSH \<noteq> REPLACE" by (simp add: const_defs)
  from gm have g0: "getMinimalAction ex_action ex_root = Inr ?m"
    by (simp add: ex_nav_def)
  show ?thesis
    using linkTo_forces_minimal_type [OF rw tm gm, of "Some PUSH" "Some False"]
      linkTo_forces_minimal_type [OF rw tm gm, of "Some REPLACE" "Some True"]
      g0 pr
    by (auto simp: root)
qed

text \<open>
  C7. When no action is resolved from the parsed state, \<^verbatim>\<open>linkTo\<close> resets the root
  to exactly that state, dispatches nothing and throws nothing. When an action is resolved
  and, after the rewriting, does not name a modal navigator, \<^verbatim>\<open>linkTo\<close> dispatches it
  on the root (the resolved action, up to its rewritten type) and does not reset.
\<close>

theorem linkTo_reset_or_direct_dispatch:
  "(getActionFromState env (getStateFromPath env path) = None \<longrightarrow>
      linkTo env (Some nav) path type isActiveRoute
        = (reads env nav path @ [CallReset (rootOf nav) (getStateFromPath env path)], None)
      \<and> dispatched (fst (linkTo env (Some nav) path type isActiveRoute)) = [])
   \<and> (rewriteActionType env nav (getState (rootOf nav)) (getStateFromPath env path) type
         (getActionFromState env (getStateFromPath env path)) = Inr (dismissals, Some a)
       \<and> \<not> targetsModal (Some a) \<longrightarrow>
      linkTo env (Some nav) path type isActiveRoute
        = (reads env nav path @ [CallDispatch (rootOf nav) a], None)
      \<and> filter isReset (fst (linkTo env (Some nav) path type isActiveRoute)) = []
      \<and> (\<exists>a0. getActionFromState env (getStateFromPath env path) = Some a0
                \<and> a = a0\<lparr>atype := atype a\<rparr>))"
proof (intro conjI impI)
  assume none: "getActionFromState env (getStateFromPath env path) = None"
  then show "linkTo env (Some nav) path type isActiveRoute
        = (reads env nav path @ [CallReset (rootOf nav) (getStateFromPath env path)], None)"
    by (simp add: linkTo_Some rewriteActionType_def)
  then show "dispatched (fst (linkTo env (Some nav) path type isActiveRoute)) = []"
    by (simp add: reads_only dispatched_append)
next
  assume h: "rewriteActionType env nav (getState (rootOf nav)) (getStateFromPath env path) type
         (getActionFromState env (getStateFromPath env path)) = Inr (dismissals, Some a)
       \<and> \<not> targetsModal (Some a)"
  have ds: "dismissals = []"
  proof (cases "getActionFromState env (getStateFromPath env path)")
    case None
    with h show ?thesis by (simp add: rewriteActionType_def)
  next
    case (Some a0)
    show ?thesis
    proof (cases "payload a0")
      case None
      with h Some show ?thesis
        by (simp add: rewriteActionType_def split: if_splits)
    next
      case (Some p)
      have "isModalNavigator (name_value (pname p)) \<Longrightarrow> pname p \<noteq> NoName"
        by (auto simp: isModalNavigator_def)
      with h Some \<open>getActionFromState env (getStateFromPath env path) = Some a0\<close>
      show ?thesis
        by (auto simp: rewriteActionType_def targetsModal_def Let_def split: if_splits)
    qed
  qed
  with h show eq: "linkTo env (Some nav) path type isActiveRoute
        = (reads env nav path @ [CallDispatch (rootOf nav) a], None)"
    by (simp add: linkTo_Some)
  then show "filter isReset (fst (linkTo env (Some nav) path type isActiveRoute)) = []"
    by (simp add: reads_only)
  from h show "\<exists>a0. getActionFromState env (getStateFromPath env path) = Some a0
                \<and> a = a0\<lparr>atype := atype a\<rparr>"
    by (auto simp: rewriteActionType_def Let_def split: option.splits if_splits)
qed

text \<open>
  Two instances: nothing resolved, and a resolved \<^verbatim>\<open>RESET\<close> action.
\<close>

theorem linkTo_reset_or_direct_dispatch_witness:
  "linkTo (ex_env None) (Some (ex_nav ex_root)) ''unknown/path'' None None
     = (reads (ex_env None) (ex_nav ex_root) ''unknown/path''
          @ [CallReset (Nav None ex_root ex_root) ex_rhp], None)
   \<and> linkTo (ex_env (Some ex_reset_action)) (Some (ex_nav ex_root)) ''home'' None None
     = (reads (ex_env (Some ex_reset_action)) (ex_nav ex_root) ''home''
          @ [CallDispatch (Nav None ex_root ex_root) ex_reset_action], None)"
proof -
  have rw: "rewriteActionType (ex_env (Some ex_reset_action)) (ex_nav ex_root)
      (getState (rootOf (ex_nav ex_root)))
      (getStateFromPath (ex_env (Some ex_reset_action)) ''home'') None
      (getActionFromState (ex_env (Some ex_reset_action))
         (getStateFromPath (ex_env (Some ex_reset_action)) ''home''))
      = Inr ([], Some ex_reset_action)
      \<and> \<not> targetsModal (Some ex_reset_action)"
    by (simp add: rewriteActionType_def targetsModal_def ex_defs const_defs)
  show ?thesis
    using linkTo_reset_or_direct_dispatch
        [of "ex_env None" "''unknown/path''" "ex_nav ex_root" None None "[]" ex_reset_action]
      linkTo_reset_or_direct_dispatch
        [of "ex_env (Some ex_reset_action)" "''home''" "ex_nav ex_root" None None "[]"
            ex_reset_action]
      rw
    by (simp add: ex_env_def ex_nav_def)
qed

text \<open>
  C8. Called with an absent navigation handle, \<^verbatim>\<open>linkTo\<close> throws at once: the error is
  the missing-navigation-object error and no call at all has been made before it (no
  parent or state read, no path parsing, no dismiss, no dispatch, no reset).
\<close>

theorem linkTo_null_navigation:
  "linkTo env None path type isActiveRoute = ([], Some NoNavigationObject)"
  by (simp add: linkTo_def)

subsection \<open>The route lookup\<close>

text \<open>
  C9. The route lookup \<^verbatim>\<open>routes[index ?? -1].name\<close> is not total. On a state whose
  \<^verbatim>\<open>index\<close> is unset (here the partial nested state of \<open>ex_root_partial\<close>, reached
  after one descent) the read \<^verbatim>\<open>routes[-1]\<close> is \<^verbatim>\<open>undefined\<close>, not the last route,
  and on a state with no routes \<^verbatim>\<open>routes[0]\<close> is \<^verbatim>\<open>undefined\<close>; in both cases
  reading \<^verbatim>\<open>.name\<close> throws a \<^verbatim>\<open>TypeError\<close> instead of stopping the loop.
\<close>

theorem getMinimalAction_faults_on_missing_route:
  "getMinimalAction ex_action ex_root_partial = Inl TypeError
   \<and> getMinimalAction ex_action ex_root_empty = Inl TypeError"
  by (simp add: getMinimalAction.simps ex_defs activeRoute_def js_index_def unwrap_def)

text \<open>
  C10. \<^verbatim>\<open>getMinimalAction\<close> does not return on every input, and so \<^verbatim>\<open>linkTo\<close> does
  not always dispatch for an action that names a modal navigator: with the partial nested
  state of \<open>ex_root_partial\<close> as root state, the \<^verbatim>\<open>TypeError\<close> of the route lookup
  leaves \<^verbatim>\<open>linkTo\<close> after the \<^verbatim>\<open>getRootState\<close> call, and nothing is dispatched.
\<close>

theorem linkTo_modal_minimization_faults:
  "linkTo (ex_env (Some ex_action)) (Some (ex_nav ex_root_partial)) ''settings/profile'' None None
     = (reads (ex_env (Some ex_action)) (ex_nav ex_root_partial) ''settings/profile''
          @ [CallGetRootState (ex_nav ex_root_partial)],
        Some TypeError)"
proof -
  have "getMinimalAction ex_action ex_root_partial = Inl TypeError"
    by (simp add: getMinimalAction.simps ex_defs activeRoute_def js_index_def unwrap_def)
  moreover have "getRootState (ex_nav ex_root_partial) = ex_root_partial"
    by (simp add: ex_nav_def)
  moreover have "rewriteActionType (ex_env (Some ex_action)) (ex_nav ex_root_partial)
      (getState (rootOf (ex_nav ex_root_partial)))
      (getStateFromPath (ex_env (Some ex_action)) ''settings/profile'') None
      (getActionFromState (ex_env (Some ex_action))
         (getStateFromPath (ex_env (Some ex_action)) ''settings/profile''))
      = Inr ([], Some ex_action)"
    by (simp add: rewriteActionType_def ex_defs topRouteName_def isModalNavigator_def const_defs)
  moreover have "targetsModal (Some ex_action)"
    by (simp add: targetsModal_def ex_defs isModalNavigator_def const_defs)
  ultimately show ?thesis
    by (simp add: linkTo_Some)
qed

end
